theory Spec2Isabelle
  imports Main "HOL-Library.Char_ord" "HOL-Library.List_Lexorder"
begin

section \<open>The release script, embedded\<close>

text \<open>
  The script \<^verbatim>\<open>release.py\<close> scans the working directory for build artifacts, plans
  which of them to publish, resolves a release tag and drives an external command-line
  client, once per file. Paths and all other strings are \<^typ>\<open>string\<close>; Python's
  unbounded integers are \<^typ>\<open>int\<close> or \<^typ>\<open>nat\<close>.
\<close>

subsection \<open>Strings as Python handles them\<close>

text \<open>
  A character is a code point below 256. \<^verbatim>\<open>str.isspace\<close> holds there for the codes
  9 to 13, 28 to 32, 133 and 160, and these are what \<^verbatim>\<open>strip\<close> and \<^verbatim>\<open>split\<close>
  take for whitespace; \<^verbatim>\<open>int\<close> drops the same characters around a number but for
  the codes 28 to 31. \<^verbatim>\<open>str.lower\<close> moves \<open>A\<close> to \<open>Z\<close> and the accented
  capitals (192 to 222 but 215) up by 32.
\<close>

definition is_space :: "char \<Rightarrow> bool" where
  "is_space c = (let n = (of_char c :: nat)
                 in (9 \<le> n \<and> n \<le> 13) \<or> (28 \<le> n \<and> n \<le> 32) \<or> n = 133 \<or> n = 160)"

definition int_space :: "char \<Rightarrow> bool" where
  "int_space c = (let n = (of_char c :: nat)
                  in (9 \<le> n \<and> n \<le> 13) \<or> n = 32 \<or> n = 133 \<or> n = 160)"

definition strip_with :: "(char \<Rightarrow> bool) \<Rightarrow> string \<Rightarrow> string" where
  "strip_with blank s = rev (dropWhile blank (rev (dropWhile blank s)))"

definition strip :: "string \<Rightarrow> string" where
  "strip s = strip_with is_space s"

definition lower_char :: "char \<Rightarrow> char" where
  "lower_char c = (let n = (of_char c :: nat)
                   in if (65 \<le> n \<and> n \<le> 90) \<or> (192 \<le> n \<and> n \<le> 222 \<and> n \<noteq> 215)
                      then char_of (n + 32) else c)"

definition lower :: "string \<Rightarrow> string" where
  "lower s = map lower_char s"

definition startswith :: "string \<Rightarrow> string \<Rightarrow> bool" where
  "startswith s pat = (take (length pat) s = pat)"

definition endswith :: "string \<Rightarrow> string \<Rightarrow> bool" where
  "endswith s pat = (length pat \<le> length s \<and> drop (length s - length pat) s = pat)"

text \<open>\<^verbatim>\<open>pat in s\<close> on strings.\<close>

fun contains :: "string \<Rightarrow> string \<Rightarrow> bool" where
  "contains pat [] = (pat = [])"
| "contains pat (c # cs) = (startswith (c # cs) pat \<or> contains pat cs)"

text \<open>
  \<^verbatim>\<open>s.split(sep)\<close> for a separator that is not empty: \<open>cur\<close> is the piece being
  read, \<open>k\<close> the number of characters of a matched separator still to skip.
\<close>

fun split_go :: "string \<Rightarrow> string \<Rightarrow> nat \<Rightarrow> string \<Rightarrow> string list" where
  "split_go sep cur k [] = [cur]"
| "split_go sep cur k (c # cs) =
     (if 0 < k then split_go sep cur (k - 1) cs
      else if sep \<noteq> [] \<and> startswith (c # cs) sep
           then cur # split_go sep [] (length sep - 1) cs
           else split_go sep (cur @ [c]) 0 cs)"

definition py_split :: "string \<Rightarrow> string \<Rightarrow> string list" where
  "py_split sep s = split_go sep [] 0 s"

text \<open>\<^verbatim>\<open>s.split()\<close>: the maximal runs of characters that are not whitespace.\<close>

fun split_ws_go :: "string \<Rightarrow> string \<Rightarrow> string list" where
  "split_ws_go cur [] = (if cur = [] then [] else [cur])"
| "split_ws_go cur (c # cs) =
     (if is_space c then (if cur = [] then split_ws_go [] cs else cur # split_ws_go [] cs)
      else split_ws_go (cur @ [c]) cs)"

definition split_ws :: "string \<Rightarrow> string list" where
  "split_ws s = split_ws_go [] s"

text \<open>Decimal digits, \<^verbatim>\<open>str(n)\<close> for a natural number and \<^verbatim>\<open>int(s)\<close>.\<close>

definition is_digit :: "char \<Rightarrow> bool" where
  "is_digit c = (48 \<le> (of_char c :: nat) \<and> (of_char c :: nat) \<le> 57)"

definition digit_val :: "char \<Rightarrow> nat" where
  "digit_val c = of_char c - 48"

definition digit_char :: "nat \<Rightarrow> char" where
  "digit_char d = char_of (48 + d)"

fun str_nat :: "nat \<Rightarrow> string" where
  "str_nat n = (if n < 10 then [digit_char n] else str_nat (n div 10) @ [digit_char (n mod 10)])"

text \<open>
  The digits of an integer literal as \<^verbatim>\<open>int\<close> reads them: one or more digits, single
  underscores allowed between two digits. \<open>acc\<close> is the value read so far and
  \<open>prev\<close> tells whether the previous character was a digit.
\<close>

fun int_digits :: "nat \<Rightarrow> bool \<Rightarrow> string \<Rightarrow> nat option" where
  "int_digits acc prev [] = (if prev then Some acc else None)"
| "int_digits acc prev (c # cs) =
     (if is_digit c then int_digits (10 * acc + digit_val c) True cs
      else if c = CHR ''_'' \<and> prev then int_digits acc False cs
      else None)"

text \<open>
  \<^verbatim>\<open>int(s)\<close>: the blanks around the number are dropped, then comes an optional sign,
  then the digits. \<^verbatim>\<open>None\<close> stands for the \<^verbatim>\<open>ValueError\<close>.
\<close>

definition py_int :: "string \<Rightarrow> int option" where
  "py_int s =
     (case strip_with int_space s of
        [] \<Rightarrow> None
      | c # cs \<Rightarrow>
          if c = CHR ''-'' then map_option (\<lambda>n. - int n) (int_digits 0 False cs)
          else if c = CHR ''+'' then map_option int (int_digits 0 False cs)
          else map_option int (int_digits 0 False (c # cs)))"

text \<open>\<^verbatim>\<open>sep.join(xs)\<close> and \<^verbatim>\<open>os.path.basename\<close> (the part after the last slash).\<close>

fun join :: "string \<Rightarrow> string list \<Rightarrow> string" where
  "join sep [] = []"
| "join sep [x] = x"
| "join sep (x # y # ys) = x @ sep @ join sep (y # ys)"

definition basename :: "string \<Rightarrow> string" where
  "basename p = rev (takeWhile (\<lambda>c. c \<noteq> CHR ''/'') (rev p))"

subsection \<open>The world of a run\<close>

text \<open>
  What the script reads from outside is the environment: the external client, which
  answers the \<open>n\<close>-th invocation of a run with its two output streams and its exit
  code; the three directory scans of \<^verbatim>\<open>find_files_by_extension\<close>; and the sizes of the
  files there are (\<^verbatim>\<open>os.path.getsize\<close> raises for a path that is no file). The client
  is taken to be installed, so that starting it never raises.

  What a run changes is the state: the lines still to be read from standard input, the
  client invocations made so far, and the messages printed. Of the messages, those that
  only decorate (banners, menus, the estimated progress bar, hints after an error) are
  left out; so are the clock and the pauses.
\<close>

datatype exn = EOFError | IndexError | ValueError | ZeroDivisionError | FileNotFoundError

record response =
  stdout :: string
  stderr :: string
  returncode :: int

record env =
  client :: "nat \<Rightarrow> string list \<Rightarrow> response"
  zip_glob :: "string list"
  img_glob :: "string list"
  sha_glob :: "string list"
  getsize :: "string \<Rightarrow> nat option"

datatype msg =
    No_files_found
  | No_files_selected
  | No_matching_files
  | Cancelled
  | Cancelled_no_tag
  | Release_missing string
  | Could_not_extract_tag
  | Tag_exists string
  | Using_new_tag string
  | Final_command "string list"
  | Total_upload_size nat nat
  | File_uploaded nat string
  | Overall nat nat
  | All_uploaded nat nat
  | Upload_error string string
  | Failed_after_attempts nat
  | Upload_process_failed
  | Creation_failed int string
  | First_method_failed
  | Release_created
  | Create_failed string
  | Files_uploaded
  | Upload_failed
  | No_recent_releases
  | Using_all_no_selection
  | Using_all_no_valid
  | Selected_count nat
  | Error_processing_selection
  | Auth_issue nat
  | File_completed nat string
  | Invalid_range string
  | Invalid_range_format string
  | Out_of_range string
  | Invalid_number string

record state =
  stdin :: "string list"
  calls :: "string list list"
  printed :: "msg list"

text \<open>
  A piece of the script maps a state to a result and the next state; the result is the
  value returned or the exception raised. Nothing in the script catches the exceptions
  modelled here, so a raised one ends the run. An interrupt from the keyboard is not
  modelled.
\<close>

type_synonym 'a prog = "state \<Rightarrow> (exn + 'a) \<times> state"

definition ret :: "'a \<Rightarrow> 'a prog" where
  "ret x = (\<lambda>st. (Inr x, st))"

definition raise :: "exn \<Rightarrow> 'a prog" where
  "raise e = (\<lambda>st. (Inl e, st))"

definition bnd :: "'a prog \<Rightarrow> ('a \<Rightarrow> 'b prog) \<Rightarrow> 'b prog" where
  "bnd m f = (\<lambda>st. case m st of (Inl e, st') \<Rightarrow> (Inl e, st') | (Inr x, st') \<Rightarrow> f x st')"

definition say :: "msg \<Rightarrow> unit prog" where
  "say m = (\<lambda>st. (Inr (), st\<lparr>printed := printed st @ [m]\<rparr>))"

text \<open>\<^verbatim>\<open>input(...)\<close>: the next line of standard input, \<^verbatim>\<open>EOFError\<close> at its end.\<close>

definition input_line :: "string prog" where
  "input_line = (\<lambda>st. case stdin st of
                        [] \<Rightarrow> (Inl EOFError, st)
                      | l # ls \<Rightarrow> (Inr l, st\<lparr>stdin := ls\<rparr>))"

text \<open>A prompt that is repeated until the answer is accepted.\<close>

fun read_until :: "(string \<Rightarrow> bool) \<Rightarrow> string list \<Rightarrow> (exn + string) \<times> string list" where
  "read_until ok [] = (Inl EOFError, [])"
| "read_until ok (l # ls) = (if ok l then (Inr l, ls) else read_until ok ls)"

definition input_until :: "(string \<Rightarrow> bool) \<Rightarrow> string prog" where
  "input_until ok = (\<lambda>st. case read_until ok (stdin st) of (r, ls) \<Rightarrow> (r, st\<lparr>stdin := ls\<rparr>))"

text \<open>One invocation of the external client (\<^verbatim>\<open>subprocess.run\<close> or \<^verbatim>\<open>Popen\<close>).\<close>

definition invoke :: "env \<Rightarrow> string list \<Rightarrow> response prog" where
  "invoke e cmd = (\<lambda>st. (Inr (client e (length (calls st)) cmd), st\<lparr>calls := calls st @ [cmd]\<rparr>))"

text \<open>
  \<^verbatim>\<open>run_command\<close>, always called with \<^verbatim>\<open>check=False\<close>: the stripped standard output
  and the exit code; the error stream is dropped.
\<close>

definition run_command :: "env \<Rightarrow> string list \<Rightarrow> (string \<times> int) prog" where
  "run_command e cmd = bnd (invoke e cmd) (\<lambda>r. ret (strip (stdout r), returncode r))"

subsection \<open>Checks before any work\<close>

definition check_github_auth :: "env \<Rightarrow> bool prog" where
  "check_github_auth e =
     bnd (run_command e [''gh'', ''auth'', ''status'']) (\<lambda>(result, exit_code).
       if exit_code \<noteq> 0 then ret False
       else if contains ''Token scopes'' result
       then (case py_split ''Token scopes:'' result of
               _ # after # _ \<Rightarrow>
                 (case py_split [CHR 0x0A] after of
                    [] \<Rightarrow> raise IndexError
                  | line # _ \<Rightarrow>
                      if \<not> contains ''repo'' (lower (strip line))
                      then bnd input_line (\<lambda>proceed.
                             if lower proceed \<noteq> ''y'' then ret False else ret True)
                      else ret True)
             | _ \<Rightarrow> raise IndexError)
       else ret True)"

text \<open>
  \<^verbatim>\<open>result.splitlines()[0]\<close> raises on an empty \<open>result\<close> and on no other: a string
  that is not empty has a first line.
\<close>

definition check_repository_access :: "env \<Rightarrow> bool prog" where
  "check_repository_access e =
     bnd (run_command e [''gh'', ''repo'', ''view'']) (\<lambda>(result, exit_code).
       if exit_code \<noteq> 0 then ret False
       else if result = [] then raise IndexError
       else ret True)"

subsection \<open>Tags\<close>

definition check_tag_exists :: "env \<Rightarrow> string \<Rightarrow> bool prog" where
  "check_tag_exists e tag =
     bnd (run_command e [''gh'', ''release'', ''view'', tag]) (\<lambda>(_, exit_code). ret (exit_code = 0))"

text \<open>
  The \<^verbatim>\<open>while\<close> loop of \<^verbatim>\<open>get_unique_tag\<close> asks the client about one candidate
  after the other and need not end: not returning is \<open>None\<close>.
\<close>

partial_function (option) version_loop :: "env \<Rightarrow> string \<Rightarrow> nat \<Rightarrow> state \<Rightarrow> (nat \<times> state) option" where
  "version_loop e tag version st =
     (case check_tag_exists e (tag @ ''-v'' @ str_nat version) st of
        (exists, st') \<Rightarrow>
          if exists = Inr True then version_loop e tag (version + 1) st'
          else Some (version, st'))"

definition get_unique_tag :: "env \<Rightarrow> string \<Rightarrow> state \<Rightarrow> ((exn + string) \<times> state) option" where
  "get_unique_tag e tag st =
     (case check_tag_exists e tag st of
        (Inr True, st1) \<Rightarrow>
          (case version_loop e tag 2 (snd (say (Tag_exists tag) st1)) of
             None \<Rightarrow> None
           | Some (version, st2) \<Rightarrow>
               (let new_tag = tag @ ''-v'' @ str_nat version
                in Some (Inr new_tag, snd (say (Using_new_tag new_tag) st2))))
      | (Inr False, st1) \<Rightarrow> Some (Inr tag, st1)
      | (Inl x, st1) \<Rightarrow> Some (Inl x, st1))"

text \<open>
  \<^verbatim>\<open>extract_tag_from_zip\<close> searches the base name for
  \<^verbatim>\<open>(.*?-.*?-\d+).*\<close>. A dot matches anything but a newline, so a match lies in one
  line and, both stars being lazy, starts at the start of the first line that has a
  hyphen and, after it, a hyphen followed by a digit; the group ends with the digits
  after that second hyphen, \<^verbatim>\<open>\d+\<close> being greedy.
\<close>

fun hyphen_digits :: "string \<Rightarrow> string option" where
  "hyphen_digits [] = None"
| "hyphen_digits (c # cs) =
     (if c = CHR ''-'' \<and> cs \<noteq> [] \<and> is_digit (hd cs) then Some (c # takeWhile is_digit cs)
      else map_option ((#) c) (hyphen_digits cs))"

definition line_tag :: "string \<Rightarrow> string option" where
  "line_tag line =
     (case dropWhile (\<lambda>c. c \<noteq> CHR ''-'') line of
        [] \<Rightarrow> None
      | d # rest \<Rightarrow>
          map_option (\<lambda>m. takeWhile (\<lambda>c. c \<noteq> CHR ''-'') line @ d # m) (hyphen_digits rest))"

fun first_some :: "('a \<Rightarrow> 'b option) \<Rightarrow> 'a list \<Rightarrow> 'b option" where
  "first_some f [] = None"
| "first_some f (x # xs) = (case f x of Some y \<Rightarrow> Some y | None \<Rightarrow> first_some f xs)"

definition extract_tag_from_zip :: "string \<Rightarrow> string option" where
  "extract_tag_from_zip zip_file = first_some line_tag (py_split [CHR 0x0A] (basename zip_file))"

subsection \<open>Notes and confirmation\<close>

text \<open>The loop of \<^verbatim>\<open>get_user_notes\<close>; \<open>k\<close> counts the notes that may still be asked for.\<close>

fun read_notes :: "nat \<Rightarrow> string list \<Rightarrow> string list prog" where
  "read_notes 0 notes = ret notes"
| "read_notes (Suc k) notes =
     bnd input_line (\<lambda>note.
       if note = [] \<or> lower note = ''done'' then ret notes
       else read_notes k (notes @ [''- '' @ note]))"

definition get_user_notes :: "bool \<Rightarrow> string prog" where
  "get_user_notes interactive =
     (if \<not> interactive then ret ''- Auto-generated release''
      else bnd (read_notes 5 []) (\<lambda>notes.
             if notes = [] then ret ''- Auto-generated release''
             else ret (join [CHR 0x0A] notes)))"

definition get_confirmation :: "bool \<Rightarrow> bool prog" where
  "get_confirmation auto_confirm =
     (if auto_confirm then ret True
      else bnd (input_until (\<lambda>l. lower l = ''y'' \<or> lower l = ''n'')) (\<lambda>response.
             ret (lower response = ''y'')))"

subsection \<open>Checksum files of the selected archives\<close>

text \<open>
  \<^verbatim>\<open>get_matching_sha\<close>: the path of the archive with \<^verbatim>\<open>.sha256sum\<close> appended, when
  the scan found it, and \<^verbatim>\<open>None\<close> otherwise.
\<close>

definition get_matching_sha :: "string \<Rightarrow> string list \<Rightarrow> string option" where
  "get_matching_sha zip_file sha_files =
     (let sha_path = zip_file @ ''.sha256sum''
      in if sha_path \<in> set sha_files then Some sha_path else None)"

text \<open>
  The loop of \<^verbatim>\<open>add_sha_files\<close> over \<^verbatim>\<open>zip_files\<close>; \<open>result\<close> is the copy that
  the loop appends to. A path object is always truthy, so \<^verbatim>\<open>if sha_file\<close> asks
  whether it is not \<^verbatim>\<open>None\<close>.
\<close>

fun add_sha_loop :: "string list \<Rightarrow> string list \<Rightarrow> string list \<Rightarrow> string list \<Rightarrow> string list" where
  "add_sha_loop result files_to_release [] sha_files = result"
| "add_sha_loop result files_to_release (zip_file # zip_files) sha_files =
     (if zip_file \<in> set files_to_release
      then (case get_matching_sha zip_file sha_files of
              Some sha_file \<Rightarrow> add_sha_loop (result @ [sha_file]) files_to_release zip_files sha_files
            | None \<Rightarrow> add_sha_loop result files_to_release zip_files sha_files)
      else add_sha_loop result files_to_release zip_files sha_files)"

definition add_sha_files :: "string list \<Rightarrow> string list \<Rightarrow> string list \<Rightarrow> string list" where
  "add_sha_files files_to_release zip_files sha_files =
     add_sha_loop files_to_release files_to_release zip_files sha_files"

subsection \<open>The Selection Planner\<close>

text \<open>\<^verbatim>\<open>xs[i]\<close>: a negative index counts from the end; \<open>None\<close> is the \<^verbatim>\<open>IndexError\<close>.\<close>

definition py_get :: "'a list \<Rightarrow> int \<Rightarrow> 'a option" where
  "py_get xs i =
     (if 0 \<le> i \<and> i < int (length xs) then Some (xs ! nat i)
      else if i < 0 \<and> - int (length xs) \<le> i then Some (xs ! nat (int (length xs) + i))
      else None)"

text \<open>
  \<^verbatim>\<open>start, end = map(int, part.split('-'))\<close>: a \<^verbatim>\<open>ValueError\<close> (here \<open>None\<close>)
  unless there are exactly two pieces and both are integers.
\<close>

definition unpack_range :: "string \<Rightarrow> (int \<times> int) option" where
  "unpack_range part =
     (case py_split ''-'' part of
        [a, b] \<Rightarrow> (case py_int a of
                     None \<Rightarrow> None
                   | Some start \<Rightarrow> (case py_int b of None \<Rightarrow> None | Some end \<Rightarrow> Some (start, end)))
      | _ \<Rightarrow> None)"

text \<open>
  The loop over the tokens of a manual selector; \<open>n\<close> is \<^verbatim>\<open>len(all_files)\<close> and
  \<open>selected_indices\<close> the list built so far.
\<close>

fun parse_parts :: "nat \<Rightarrow> string list \<Rightarrow> int list \<Rightarrow> int list prog" where
  "parse_parts n [] selected_indices = ret selected_indices"
| "parse_parts n (part # parts) selected_indices =
     (if CHR ''-'' \<in> set part
      then (case unpack_range part of
              Some (start, end) \<Rightarrow>
                (let start_idx = start - 1; end_idx = end - 1
                 in if 0 \<le> start_idx \<and> start_idx \<le> end_idx \<and> end_idx < int n
                    then parse_parts n parts (selected_indices @ [start_idx..end_idx])
                    else bnd (say (Invalid_range part)) (\<lambda>_. parse_parts n parts selected_indices))
            | None \<Rightarrow>
                bnd (say (Invalid_range_format part)) (\<lambda>_. parse_parts n parts selected_indices))
      else (case py_int part of
              Some v \<Rightarrow>
                (let idx = v - 1
                 in if 0 \<le> idx \<and> idx < int n
                    then parse_parts n parts (selected_indices @ [idx])
                    else bnd (say (Out_of_range part)) (\<lambda>_. parse_parts n parts selected_indices))
            | None \<Rightarrow>
                bnd (say (Invalid_number part)) (\<lambda>_. parse_parts n parts selected_indices)))"

text \<open>The files at the chosen positions; \<open>None\<close> is an \<^verbatim>\<open>IndexError\<close>.\<close>

fun pick_files :: "string list \<Rightarrow> int list \<Rightarrow> string list option" where
  "pick_files all_files [] = Some []"
| "pick_files all_files (idx # idxs) =
     (case py_get all_files idx of
        None \<Rightarrow> None
      | Some f \<Rightarrow> map_option ((#) f) (pick_files all_files idxs))"

text \<open>
  Option 4 of \<^verbatim>\<open>select_files_for_release\<close>, from the prompt for the selector to the
  end of its \<^verbatim>\<open>try\<close>; \<^verbatim>\<open>sorted(set(xs))\<close> is \<open>sort (remdups xs)\<close>. The handler
  of the \<^verbatim>\<open>try\<close> takes every exception of the block, which can only be the
  \<^verbatim>\<open>IndexError\<close> of \<open>pick_files\<close>.
\<close>

definition manual_selection :: "string list \<Rightarrow> string list \<Rightarrow> string list prog" where
  "manual_selection zip_files img_files =
     (let all_files = zip_files @ img_files
      in bnd input_line (\<lambda>selected.
           if strip selected = []
           then bnd (say Using_all_no_selection) (\<lambda>_. ret (zip_files @ img_files))
           else bnd (parse_parts (length all_files) (split_ws selected) []) (\<lambda>selected_indices.
                  case pick_files all_files (sort (remdups selected_indices)) of
                    None \<Rightarrow> bnd (say Error_processing_selection) (\<lambda>_. ret (zip_files @ img_files))
                  | Some files_to_release \<Rightarrow>
                      if files_to_release = []
                      then bnd (say Using_all_no_valid) (\<lambda>_. ret (zip_files @ img_files))
                      else bnd (say (Selected_count (length files_to_release)))
                             (\<lambda>_. ret files_to_release))))"

definition select_files_for_release :: "string list \<Rightarrow> string list \<Rightarrow> string list \<Rightarrow> string list prog" where
  "select_files_for_release zip_files img_files sha_files =
     bnd (input_until (\<lambda>l. l \<in> set [''1'', ''2'', ''3'', ''4''])) (\<lambda>choice.
       bnd (if choice = ''1'' then ret (zip_files @ img_files)
            else if choice = ''2'' then ret img_files
            else if choice = ''3'' then ret zip_files
            else if choice = ''4'' then manual_selection zip_files img_files
            else ret [])
         (\<lambda>files_to_release. ret (add_sha_files files_to_release zip_files sha_files)))"

subsection \<open>The Upload Orchestrator\<close>

text \<open>
  \<^verbatim>\<open>{file: os.path.getsize(file) for file in files}\<close> raises at a path that is no
  file; \<^verbatim>\<open>sum(file_sizes.values())\<close> counts every key of the dictionary once.
\<close>

definition size_of :: "env \<Rightarrow> string \<Rightarrow> nat" where
  "size_of e file = (case getsize e file of Some n \<Rightarrow> n | None \<Rightarrow> 0)"

definition have_sizes :: "env \<Rightarrow> string list \<Rightarrow> bool" where
  "have_sizes e files = list_all (\<lambda>f. getsize e f \<noteq> None) files"

definition total_size_of :: "env \<Rightarrow> string list \<Rightarrow> nat" where
  "total_size_of e files = sum_list (map (size_of e) (remdups files))"

text \<open>
  The three attempts of \<^verbatim>\<open>upload_to_existing_release\<close> for one file, a loop over
  \<^verbatim>\<open>range(1, max_retries + 1)\<close>. The result is \<^verbatim>\<open>success\<close> and
  \<^verbatim>\<open>total_uploaded\<close>. The percentage divides by \<^verbatim>\<open>total_size\<close> before the
  success is printed.
\<close>

fun upload_attempts ::
  "env \<Rightarrow> string list \<Rightarrow> nat \<Rightarrow> string \<Rightarrow> nat \<Rightarrow> nat \<Rightarrow> nat \<Rightarrow> nat list \<Rightarrow> (bool \<times> nat) prog" where
  "upload_attempts e upload_cmd file_index file_name file_size total_size total_uploaded [] =
     ret (True, total_uploaded)"
| "upload_attempts e upload_cmd file_index file_name file_size total_size total_uploaded (attempt # attempts) =
     bnd (run_command e upload_cmd) (\<lambda>(upload_result, upload_code).
       if upload_code = 0
       then (if total_size = 0 then raise ZeroDivisionError
             else bnd (say (File_uploaded (file_index + 1) file_name)) (\<lambda>_.
                  bnd (say (Overall (total_uploaded + file_size) total_size)) (\<lambda>_.
                  ret (True, total_uploaded + file_size))))
       else if attempt = 3
       then bnd (say (Upload_error file_name upload_result)) (\<lambda>_.
            bnd (say (Failed_after_attempts 3)) (\<lambda>_.
            ret (False, total_uploaded)))
       else upload_attempts e upload_cmd file_index file_name file_size total_size total_uploaded attempts)"

text \<open>The loop over the files; it stops at the first file whose three attempts fail.\<close>

fun upload_each ::
  "env \<Rightarrow> string \<Rightarrow> nat \<Rightarrow> nat \<Rightarrow> nat \<Rightarrow> string list \<Rightarrow> (bool \<times> nat) prog" where
  "upload_each e tag total_size file_index total_uploaded [] = ret (True, total_uploaded)"
| "upload_each e tag total_size file_index total_uploaded (file # files) =
     bnd (upload_attempts e [''gh'', ''release'', ''upload'', tag, file] file_index (basename file)
            (size_of e file) total_size total_uploaded [1, 2, 3])
       (\<lambda>(success, total_uploaded').
          if \<not> success then ret (False, total_uploaded')
          else upload_each e tag total_size (file_index + 1) total_uploaded' files)"

definition upload_to_existing_release :: "env \<Rightarrow> string \<Rightarrow> string list \<Rightarrow> bool prog" where
  "upload_to_existing_release e tag0 files_to_release =
     bnd (if endswith tag0 ''.zip'' \<or> endswith tag0 ''.img'' \<or> endswith tag0 ''.sha256sum''
          then bnd input_line (\<lambda>correct_tag.
                 if correct_tag = [] then bnd (say Cancelled_no_tag) (\<lambda>_. ret None)
                 else ret (Some correct_tag))
          else ret (Some tag0))
       (\<lambda>checked. case checked of
          None \<Rightarrow> ret False
        | Some tag \<Rightarrow>
            bnd (run_command e [''gh'', ''release'', ''view'', tag]) (\<lambda>(result, exit_code).
              if exit_code \<noteq> 0 then bnd (say (Release_missing tag)) (\<lambda>_. ret False)
              else bnd (say (Final_command ([''gh'', ''release'', ''upload'', tag] @ files_to_release))) (\<lambda>_.
                   bnd (get_confirmation False) (\<lambda>confirmed.
                     if confirmed
                     then (if \<not> have_sizes e files_to_release then raise FileNotFoundError
                           else bnd (say (Total_upload_size (total_size_of e files_to_release)
                                            (length files_to_release))) (\<lambda>_.
                                bnd (upload_each e tag (total_size_of e files_to_release) 0 0
                                       files_to_release) (\<lambda>(success, total_uploaded).
                                  if success
                                  then bnd (say (All_uploaded (length files_to_release)
                                                   (total_size_of e files_to_release))) (\<lambda>_. ret True)
                                  else bnd (say Upload_process_failed) (\<lambda>_. ret False))))
                     else bnd (say Cancelled) (\<lambda>_. ret False)))))"

text \<open>
  \<^verbatim>\<open>cmd.index(flag) + 1 if flag in cmd else -1\<close>, and the argument read at that
  position.
\<close>

fun index_of :: "'a \<Rightarrow> 'a list \<Rightarrow> nat" where
  "index_of x [] = 0"
| "index_of x (y # ys) = (if x = y then 0 else Suc (index_of x ys))"

definition flag_index :: "string \<Rightarrow> string list \<Rightarrow> int" where
  "flag_index flag cmd = (if flag \<in> set cmd then int (index_of flag cmd) + 1 else - 1)"

definition flag_args :: "string \<Rightarrow> string list \<Rightarrow> string list prog" where
  "flag_args flag cmd =
     (if 0 < flag_index flag cmd
      then (case py_get cmd (flag_index flag cmd) of
              None \<Rightarrow> raise IndexError
            | Some v \<Rightarrow> ret [flag, v])
      else ret [])"

definition auth_indicator :: "string \<Rightarrow> bool" where
  "auth_indicator err = (contains ''authentication'' (lower err) \<or> contains ''permission'' (lower err))"

text \<open>
  The \<^verbatim>\<open>while retry_count < max_retries\<close> loop of \<^verbatim>\<open>create_release_with_progress\<close>
  for one file. The loop is left by \<^verbatim>\<open>break\<close> when the client succeeds, by
  \<^verbatim>\<open>return\<close> (here \<open>Inl\<close>) when it fails with no indicator in its error stream, and
  by its condition otherwise. The statements after the \<^verbatim>\<open>if\<close> chain, which add the
  size of the file to \<^verbatim>\<open>total_uploaded\<close> and print the completion, are reached from
  the branch of the indicator only: the \<^verbatim>\<open>break\<close> jumps over them. The loop that
  polls the process while painting the estimate depends on the clock alone and is left
  out; the process is taken to end.
\<close>

function upload_retry ::
  "env \<Rightarrow> string list \<Rightarrow> nat \<Rightarrow> string \<Rightarrow> nat \<Rightarrow> nat \<Rightarrow> nat \<Rightarrow> nat \<Rightarrow> ((string \<times> int) + (nat \<times> nat)) prog" where
  "upload_retry e upload_cmd file_index file_name file_size total_size retry_count total_uploaded =
     (if retry_count < 3
      then bnd (invoke e upload_cmd) (\<lambda>r.
             if returncode r = 0 then ret (Inr (retry_count, total_uploaded))
             else if auth_indicator (stderr r)
             then bnd (say (Auth_issue (retry_count + 1))) (\<lambda>_.
                  bnd (say (File_completed (file_index + 1) file_name)) (\<lambda>_.
                  if total_size = 0 then raise ZeroDivisionError
                  else bnd (say (Overall (total_uploaded + file_size) total_size)) (\<lambda>_.
                       upload_retry e upload_cmd file_index file_name file_size total_size
                         (retry_count + 1) (total_uploaded + file_size))))
             else bnd (say (Upload_error file_name (stderr r))) (\<lambda>_.
                  ret (Inl (stderr r, returncode r))))
      else ret (Inr (retry_count, total_uploaded)))"
  by pat_completeness auto
termination
  by (relation "measure (\<lambda>(e, upload_cmd, file_index, file_name, file_size, total_size, retry_count, total_uploaded). 3 - retry_count)") auto

text \<open>The loop over the files of \<^verbatim>\<open>create_release_with_progress\<close>.\<close>

fun upload_files ::
  "env \<Rightarrow> string \<Rightarrow> nat \<Rightarrow> nat \<Rightarrow> nat \<Rightarrow> string list \<Rightarrow> ((string \<times> int) + nat) prog" where
  "upload_files e tag total_size file_index total_uploaded [] = ret (Inr total_uploaded)"
| "upload_files e tag total_size file_index total_uploaded (file # files) =
     bnd (upload_retry e [''gh'', ''release'', ''upload'', tag, file] file_index (basename file)
            (size_of e file) total_size 0 total_uploaded)
       (\<lambda>left. case left of
          Inl returned \<Rightarrow> ret (Inl returned)
        | Inr (retry_count, total_uploaded') \<Rightarrow>
            if retry_count = 3
            then bnd (say (Failed_after_attempts 3)) (\<lambda>_. ret (Inl (''Authentication failure'', 1)))
            else upload_files e tag total_size (file_index + 1) total_uploaded' files)"

definition create_release_with_progress :: "env \<Rightarrow> string list \<Rightarrow> string list \<Rightarrow> (string \<times> int) prog" where
  "create_release_with_progress e cmd files_to_release =
     (if \<not> have_sizes e files_to_release then raise FileNotFoundError
      else bnd (say (Total_upload_size (total_size_of e files_to_release) (length files_to_release))) (\<lambda>_.
        case py_get cmd 3 of
          None \<Rightarrow> raise IndexError
        | Some tag \<Rightarrow>
            bnd (flag_args ''--notes'' cmd) (\<lambda>notes_args.
            bnd (flag_args ''--title'' cmd) (\<lambda>title_args.
            bnd (invoke e ([''gh'', ''release'', ''create'', tag] @ notes_args @ title_args)) (\<lambda>r.
              if returncode r \<noteq> 0
              then bnd (say (Creation_failed (returncode r) (stderr r))) (\<lambda>_.
                   bnd (run_command e [''gh'', ''auth'', ''status'']) (\<lambda>_.
                   ret (''Creation failed: '' @ stderr r, returncode r)))
              else bnd (upload_files e tag (total_size_of e files_to_release) 0 0 files_to_release)
                     (\<lambda>done. case done of
                        Inl returned \<Rightarrow> ret returned
                      | Inr total_uploaded \<Rightarrow>
                          bnd (say (All_uploaded (length files_to_release)
                                     (total_size_of e files_to_release))) (\<lambda>_.
                          ret (''Success'', 0))))))))"

definition create_release_with_direct_command :: "env \<Rightarrow> string list \<Rightarrow> string list \<Rightarrow> (string \<times> int) prog" where
  "create_release_with_direct_command e cmd files_to_release =
     (case py_get cmd 3 of
        None \<Rightarrow> raise IndexError
      | Some tag \<Rightarrow>
          bnd (flag_args ''--title'' cmd) (\<lambda>title_args.
          bnd (flag_args ''--notes'' cmd) (\<lambda>notes_args.
          bnd (run_command e ([''gh'', ''release'', ''create'', tag] @ files_to_release
                              @ title_args @ notes_args)) (\<lambda>(result, exit_code).
            if exit_code \<noteq> 0 then ret (result, exit_code)
            else bnd (say Release_created) (\<lambda>_. ret (''Success'', 0))))))"

text \<open>
  The lines that \<^verbatim>\<open>main\<close> and \<^verbatim>\<open>interactive_mode\<close> share once the user has
  confirmed: the first method and, when it reports a failure, the direct one.
\<close>

definition create_with_fallback :: "env \<Rightarrow> string list \<Rightarrow> string list \<Rightarrow> (string \<times> int) prog" where
  "create_with_fallback e cmd files_to_release =
     bnd (create_release_with_progress e cmd files_to_release) (\<lambda>(result, exit_code).
       if exit_code \<noteq> 0
       then bnd (say First_method_failed) (\<lambda>_.
              create_release_with_direct_command e cmd files_to_release)
       else ret (result, exit_code))"

subsection \<open>Recent releases\<close>

record release =
  rel_file :: string
  rel_tag :: string
  rel_title :: string
  rel_date :: string

text \<open>
  One line of the release list. A line with fewer than three columns is skipped;
  \<^verbatim>\<open>parts[2].strip().split()[0]\<close> raises when the third column is blank.
\<close>

definition parse_release_line :: "string \<Rightarrow> exn + release option" where
  "parse_release_line line =
     (case py_split [CHR 0x09] line of
        file_name # title # third # others \<Rightarrow>
          (case split_ws (strip third) of
             [] \<Rightarrow> Inl IndexError
           | tag # _ \<Rightarrow>
               Inr (Some \<lparr>rel_file = strip file_name, rel_tag = tag, rel_title = strip title,
                          rel_date = (case others of [] \<Rightarrow> ''Unknown'' | d # _ \<Rightarrow> strip d)\<rparr>))
      | _ \<Rightarrow> Inr None)"

fun parse_release_lines :: "string list \<Rightarrow> release list \<Rightarrow> exn + release list" where
  "parse_release_lines [] releases = Inr releases"
| "parse_release_lines (line # lines) releases =
     (if strip line = [] then parse_release_lines lines releases
      else (case parse_release_line line of
              Inl x \<Rightarrow> Inl x
            | Inr None \<Rightarrow> parse_release_lines lines releases
            | Inr (Some r) \<Rightarrow> parse_release_lines lines (releases @ [r])))"

definition fetch_recent_releases :: "env \<Rightarrow> nat \<Rightarrow> release list prog" where
  "fetch_recent_releases e limit =
     bnd (run_command e [''gh'', ''release'', ''list'', ''--limit'', str_nat limit]) (\<lambda>(result, exit_code).
       if exit_code \<noteq> 0 then ret []
       else (case parse_release_lines (py_split [CHR 0x0A] (strip result)) [] of
               Inl x \<Rightarrow> raise x
             | Inr releases \<Rightarrow> ret releases))"

subsection \<open>Runs that need not end\<close>

text \<open>
  \<^verbatim>\<open>get_unique_tag\<close> may not return, so a whole run yields \<open>None\<close> when it hangs
  there and \<open>Some\<close> of its result and last state otherwise.
\<close>

type_synonym 'a pprog = "state \<Rightarrow> ((exn + 'a) \<times> state) option"

definition lift :: "'a prog \<Rightarrow> 'a pprog" where
  "lift m = (\<lambda>st. Some (m st))"

definition pbnd :: "'a pprog \<Rightarrow> ('a \<Rightarrow> 'b pprog) \<Rightarrow> 'b pprog" where
  "pbnd m f = (\<lambda>st. case m st of
                      None \<Rightarrow> None
                    | Some (Inl x, st') \<Rightarrow> Some (Inl x, st')
                    | Some (Inr v, st') \<Rightarrow> f v st')"

subsection \<open>The interactive shell\<close>

text \<open>
  Uploading to an existing release, from the list of the recent releases to the end:
  the branch of \<^verbatim>\<open>interactive_mode\<close> that every path leaves by \<^verbatim>\<open>return\<close>.
  Its last part, once the files are selected, comes first.
\<close>

definition interactive_upload_files :: "env \<Rightarrow> string \<Rightarrow> string list \<Rightarrow> int prog" where
  "interactive_upload_files e tag files_to_release =
     (if files_to_release = []
      then bnd (say No_files_selected) (\<lambda>_. bnd input_line (\<lambda>_. ret 1))
      else bnd (upload_to_existing_release e tag files_to_release) (\<lambda>uploaded.
             if uploaded then bnd input_line (\<lambda>_. ret 0)
             else bnd input_line (\<lambda>_. ret 1)))"

definition interactive_upload :: "env \<Rightarrow> release list \<Rightarrow> int prog" where
  "interactive_upload e releases =
     bnd (input_until (\<lambda>l. l \<in> set (map str_nat [1..<length releases + 2]))) (\<lambda>release_choice.
     bnd (if release_choice = str_nat (length releases + 1)
          then input_until (\<lambda>l. l \<noteq> [])
          else (case py_int release_choice of
                  None \<Rightarrow> raise ValueError
                | Some i \<Rightarrow> (case py_get releases (i - 1) of
                              None \<Rightarrow> raise IndexError
                            | Some r \<Rightarrow> ret (rel_tag r)))) (\<lambda>tag.
     bnd (check_tag_exists e tag) (\<lambda>exists.
       if \<not> exists
       then bnd (say (Release_missing tag)) (\<lambda>_. bnd input_line (\<lambda>_. ret 1))
       else bnd (select_files_for_release (zip_glob e) (img_glob e) (sha_glob e))
              (interactive_upload_files e tag))))"

text \<open>
  Creating a release interactively: first the tag and the title. \<^verbatim>\<open>if tag\<close> fails
  for \<^verbatim>\<open>None\<close> and for the empty string.
\<close>

definition ask_tag_and_title :: "env \<Rightarrow> (string \<times> string) prog" where
  "ask_tag_and_title e =
     bnd (case zip_glob e of
            zipname # _ \<Rightarrow>
              (case extract_tag_from_zip zipname of
                 Some tag \<Rightarrow>
                   if tag \<noteq> []
                   then bnd input_line (\<lambda>change_tag.
                          if lower change_tag = ''y''
                          then bnd input_line (\<lambda>typed. ret (typed, zipname))
                          else ret (tag, zipname))
                   else bnd (say Could_not_extract_tag) (\<lambda>_.
                          bnd input_line (\<lambda>typed. ret (typed, zipname)))
               | None \<Rightarrow>
                   bnd (say Could_not_extract_tag) (\<lambda>_.
                     bnd input_line (\<lambda>typed. ret (typed, zipname))))
          | [] \<Rightarrow> bnd input_line (\<lambda>tag. bnd input_line (\<lambda>title. ret (tag, title))))
       (\<lambda>(tag, title).
          bnd input_line (\<lambda>change_title.
            if lower change_title = ''y''
            then bnd input_line (\<lambda>typed. ret (tag, typed))
            else ret (tag, title)))"

text \<open>The rest of the creation, once the files are selected.\<close>

definition interactive_release :: "env \<Rightarrow> string \<Rightarrow> string \<Rightarrow> string \<Rightarrow> string list \<Rightarrow> int prog" where
  "interactive_release e tag title notes files_to_release =
     (if files_to_release = []
      then bnd (say No_files_selected) (\<lambda>_. bnd input_line (\<lambda>_. ret 1))
      else (let cmd = [''gh'', ''release'', ''create'', tag] @ files_to_release
                      @ [''--notes'', notes, ''--title'', title]
            in bnd (say (Final_command cmd)) (\<lambda>_.
               bnd (get_confirmation False) (\<lambda>confirmed.
                 if confirmed
                 then bnd (create_with_fallback e cmd files_to_release) (\<lambda>(result, exit_code).
                        if exit_code = 0
                        then bnd (say Release_created) (\<lambda>_. bnd input_line (\<lambda>_. ret 0))
                        else bnd (say (Create_failed result)) (\<lambda>_. bnd input_line (\<lambda>_. ret 1)))
                 else bnd input_line (\<lambda>_. ret 0)))))"

definition interactive_create :: "env \<Rightarrow> int pprog" where
  "interactive_create e =
     pbnd (lift (ask_tag_and_title e)) (\<lambda>(tag0, title).
     pbnd (get_unique_tag e tag0) (\<lambda>tag.
     pbnd (lift (get_user_notes True)) (\<lambda>notes.
     pbnd (lift (select_files_for_release (zip_glob e) (img_glob e) (sha_glob e))) (\<lambda>files_to_release.
       lift (interactive_release e tag title notes files_to_release)))))"

definition interactive_mode :: "env \<Rightarrow> int pprog" where
  "interactive_mode e =
     (if zip_glob e = [] \<and> img_glob e = []
      then lift (bnd (say No_files_found) (\<lambda>_. bnd input_line (\<lambda>_. ret 1)))
      else pbnd (lift (input_until (\<lambda>l. l \<in> set [''1'', ''2'']))) (\<lambda>action_choice.
             if action_choice = ''2''
             then pbnd (lift (fetch_recent_releases e 5)) (\<lambda>releases.
                    if releases = []
                    then pbnd (lift (say No_recent_releases)) (\<lambda>_. interactive_create e)
                    else lift (interactive_upload e releases))
             else interactive_create e))"

subsection \<open>The flags and \<^verbatim>\<open>main\<close>\<close>

text \<open>
  The parsed command line. \<^verbatim>\<open>--notes\<close> appends to a list that is \<^verbatim>\<open>None\<close> until the
  flag is given; \<^verbatim>\<open>--upload\<close> holds a tag or \<^verbatim>\<open>None\<close>. The parser itself, which
  ends the process on a malformed command line, is not part of the model.
\<close>

record args =
  arg_all :: bool
  arg_img :: bool
  arg_zip :: bool
  arg_notes :: "string list option"
  arg_yes :: bool
  arg_upload :: "string option"

definition truthy :: "'a list option \<Rightarrow> bool" where
  "truthy v = (case v of None \<Rightarrow> False | Some xs \<Rightarrow> xs \<noteq> [])"

definition any_flag :: "args \<Rightarrow> bool" where
  "any_flag a = (arg_all a \<or> arg_img a \<or> arg_zip a \<or> truthy (arg_notes a) \<or> arg_yes a
                 \<or> truthy (arg_upload a))"

text \<open>The files that the flags select, with the checksum files.\<close>

definition flag_selection :: "env \<Rightarrow> args \<Rightarrow> string list" where
  "flag_selection e a =
     add_sha_files (if arg_img a then img_glob e
                    else if arg_zip a then zip_glob e
                    else zip_glob e @ img_glob e) (zip_glob e) (sha_glob e)"

text \<open>\<^verbatim>\<open>main\<close> with \<^verbatim>\<open>--upload\<close>, after the selection.\<close>

definition main_upload :: "env \<Rightarrow> string \<Rightarrow> string list \<Rightarrow> int prog" where
  "main_upload e tag files_to_release =
     bnd (run_command e [''gh'', ''release'', ''view'', tag]) (\<lambda>(result, exit_code).
       if exit_code \<noteq> 0 then bnd (say (Release_missing tag)) (\<lambda>_. ret 1)
       else bnd (upload_to_existing_release e tag files_to_release) (\<lambda>uploaded.
              if uploaded then bnd (say Files_uploaded) (\<lambda>_. ret 0)
              else bnd (say Upload_failed) (\<lambda>_. ret 1)))"

text \<open>\<^verbatim>\<open>main\<close> without \<^verbatim>\<open>--upload\<close>, after the selection.\<close>

definition main_create :: "env \<Rightarrow> args \<Rightarrow> string list \<Rightarrow> int pprog" where
  "main_create e a files_to_release =
     (case (case zip_glob e of
              zipname # _ \<Rightarrow> (extract_tag_from_zip zipname, zipname)
            | [] \<Rightarrow> (Some [], [])) of
        (extracted, title) \<Rightarrow>
          if \<not> truthy extracted then lift (bnd (say Could_not_extract_tag) (\<lambda>_. ret 1))
          else pbnd (get_unique_tag e (the extracted)) (\<lambda>tag.
                 (let notes = (if truthy (arg_notes a)
                               then join [CHR 0x0A] (map (\<lambda>note. ''- '' @ note) (the (arg_notes a)))
                               else ''- Auto-generated release'');
                      cmd = [''gh'', ''release'', ''create'', tag] @ files_to_release
                            @ [''--notes'', notes, ''--title'', title]
                  in lift (bnd (say (Final_command cmd)) (\<lambda>_.
                           bnd (get_confirmation (arg_yes a)) (\<lambda>confirmed.
                             if confirmed
                             then bnd (create_with_fallback e cmd files_to_release) (\<lambda>(result, exit_code).
                                    if exit_code = 0 then bnd (say Release_created) (\<lambda>_. ret 0)
                                    else bnd (say (Create_failed result)) (\<lambda>_. ret 1))
                             else bnd (say Cancelled) (\<lambda>_. ret 0)))))))"

text \<open>\<^verbatim>\<open>main\<close> with at least one flag, from the scan on.\<close>

definition main_flags :: "env \<Rightarrow> args \<Rightarrow> int pprog" where
  "main_flags e a =
     (if zip_glob e = [] \<and> img_glob e = [] then lift (bnd (say No_files_found) (\<lambda>_. ret 1))
      else (let files_to_release = flag_selection e a
            in if files_to_release = [] then lift (bnd (say No_matching_files) (\<lambda>_. ret 1))
               else if truthy (arg_upload a)
               then lift (main_upload e (the (arg_upload a)) files_to_release)
               else main_create e a files_to_release))"

text \<open>The part of \<^verbatim>\<open>main\<close> after the two checks.\<close>

definition main_checked :: "env \<Rightarrow> args \<Rightarrow> int pprog" where
  "main_checked e a = (if \<not> any_flag a then interactive_mode e else main_flags e a)"

definition main :: "env \<Rightarrow> args \<Rightarrow> int pprog" where
  "main e a =
     pbnd (lift (check_github_auth e)) (\<lambda>authenticated.
       if \<not> authenticated then lift (ret 1)
       else pbnd (lift (check_repository_access e)) (\<lambda>accessible.
              if \<not> accessible then lift (ret 1)
              else main_checked e a))"

text \<open>
  \<^verbatim>\<open>sys.exit(main())\<close>: the exit code of the process is the value returned, and 1
  when an exception ends the run.
\<close>

definition exit_code_of :: "(exn + int) \<Rightarrow> int" where
  "exit_code_of r = (case r of Inl _ \<Rightarrow> 1 | Inr code \<Rightarrow> code)"

subsection \<open>The same function on list objects\<close>

text \<open>
  Python lists are mutable objects, and the caller of \<^verbatim>\<open>add_sha_files\<close> may pass one
  object under two names (option 3 of the selection menu makes \<^verbatim>\<open>files_to_release\<close>
  an alias of \<^verbatim>\<open>zip_files\<close>). A heap is the list of the list objects allocated so
  far, a reference an index into it. \<^verbatim>\<open>copy()\<close> allocates a new object,
  \<^verbatim>\<open>append\<close> changes one in place, and a \<^verbatim>\<open>for\<close> loop reads the live object
  by position, so it is a loop that need not end.
\<close>

type_synonym heap = "string list list"

definition heap_copy :: "heap \<Rightarrow> nat \<Rightarrow> nat \<times> heap" where
  "heap_copy h r = (length h, h @ [h ! r])"

definition heap_append :: "heap \<Rightarrow> nat \<Rightarrow> string \<Rightarrow> heap" where
  "heap_append h r x = h[r := (h ! r) @ [x]]"

partial_function (option) add_sha_loop_heap :: "heap \<Rightarrow> nat \<Rightarrow> nat \<Rightarrow> nat \<Rightarrow> nat \<Rightarrow> nat \<Rightarrow> heap option" where
  "add_sha_loop_heap h result files_to_release zip_files sha_files i =
     (if i < length (h ! zip_files)
      then (let zip_file = (h ! zip_files) ! i
            in if zip_file \<in> set (h ! files_to_release)
               then (case get_matching_sha zip_file (h ! sha_files) of
                       Some sha_file \<Rightarrow>
                         add_sha_loop_heap (heap_append h result sha_file) result
                           files_to_release zip_files sha_files (i + 1)
                     | None \<Rightarrow>
                         add_sha_loop_heap h result files_to_release zip_files sha_files (i + 1))
               else add_sha_loop_heap h result files_to_release zip_files sha_files (i + 1))
      else Some h)"

definition add_sha_files_heap :: "heap \<Rightarrow> nat \<Rightarrow> nat \<Rightarrow> nat \<Rightarrow> (nat \<times> heap) option" where
  "add_sha_files_heap h files_to_release zip_files sha_files =
     (case heap_copy h files_to_release of
        (result, h1) \<Rightarrow>
          (case add_sha_loop_heap h1 result files_to_release zip_files sha_files 0 of
             None \<Rightarrow> None
           | Some h2 \<Rightarrow> Some (result, h2)))"

text \<open>The checksum paths that \<^verbatim>\<open>add_sha_files\<close> adds, in the order of the archive scan.\<close>

definition sha_of_selected :: "string list \<Rightarrow> string list \<Rightarrow> string list \<Rightarrow> string list" where
  "sha_of_selected files_to_release zip_files sha_files =
     map (\<lambda>z. z @ ''.sha256sum'')
       (filter (\<lambda>z. z \<in> set files_to_release \<and> z @ ''.sha256sum'' \<in> set sha_files) zip_files)"

subsection \<open>Notions of the specification\<close>

text \<open>
  The invocation that uploads one file, and a response that is a failure whose error
  stream carries an authentication or permission indicator.
\<close>

definition upload_cmd :: "string \<Rightarrow> string \<Rightarrow> string list" where
  "upload_cmd tag file = [''gh'', ''release'', ''upload'', tag, file]"


text \<open>
  The \<open>n\<close>-th candidate for a tag that is taken, and a client whose published
  releases are exactly those of a set of tags: it answers the query for a tag with exit
  code 0 when the tag is in the set and with another code when it is not.
\<close>

definition candidate :: "string \<Rightarrow> nat \<Rightarrow> string" where
  "candidate tag n = tag @ ''-v'' @ str_nat n"

definition publishes :: "env \<Rightarrow> string set \<Rightarrow> bool" where
  "publishes e existing =
     (\<forall>n tag. (returncode (client e n [''gh'', ''release'', ''view'', tag]) = 0) = (tag \<in> existing))"

text \<open>
  The tag \<open>t\<close> is the first in the lexicographic order of strings among the candidates
  from version 2 on that are not published.
\<close>

definition lex_first_free :: "string set \<Rightarrow> string \<Rightarrow> string \<Rightarrow> bool" where
  "lex_first_free existing tag t =
     ((\<exists>n\<ge>2. t = candidate tag n) \<and> t \<notin> existing
      \<and> (\<forall>n\<ge>2. candidate tag n \<notin> existing \<longrightarrow> t \<le> candidate tag n))"





subsection \<open>Example worlds\<close>

text \<open>
  Two directories: one with an archive, its checksum file and an image, ten bytes each,
  and an empty one. Five clients: one whose every invocation succeeds; one that accepts
  no upload, reporting \<^verbatim>\<open>boom\<close>, and knows every release or none; one that refuses
  every upload for want of permission; one whose first invocation fails when it is to
  create a release; and one that has published the releases of a list of tags.
\<close>

definition answer :: "string \<Rightarrow> string \<Rightarrow> int \<Rightarrow> response" where
  "answer out err code = \<lparr>stdout = out, stderr = err, returncode = code\<rparr>"

definition client_ok :: "nat \<Rightarrow> string list \<Rightarrow> response" where
  "client_ok n cmd = answer ''ok'' [] 0"

definition client_no_upload :: "bool \<Rightarrow> nat \<Rightarrow> string list \<Rightarrow> response" where
  "client_no_upload known n cmd =
     (if take 3 cmd = [''gh'', ''release'', ''upload''] then answer ''out'' ''boom'' 1
      else if take 3 cmd = [''gh'', ''release'', ''view''] \<and> \<not> known then answer [] ''release not found'' 1
      else answer ''ok'' [] 0)"



definition client_published :: "string list \<Rightarrow> nat \<Rightarrow> string list \<Rightarrow> response" where
  "client_published tags n cmd =
     (if take 3 cmd = [''gh'', ''release'', ''view'']
         \<and> cmd \<notin> set (map (\<lambda>t. [''gh'', ''release'', ''view'', t]) tags)
      then answer [] ''release not found'' 1
      else answer ''ok'' [] 0)"

definition world :: "(nat \<Rightarrow> string list \<Rightarrow> response) \<Rightarrow> env" where
  "world c = \<lparr>client = c, zip_glob = [''rom-1.2-2025.zip''], img_glob = [''boot.img''],
              sha_glob = [''rom-1.2-2025.zip.sha256sum''], getsize = (\<lambda>f. Some 10)\<rparr>"

definition empty_world :: "(nat \<Rightarrow> string list \<Rightarrow> response) \<Rightarrow> env" where
  "empty_world c = \<lparr>client = c, zip_glob = [], img_glob = [], sha_glob = [], getsize = (\<lambda>f. None)\<rparr>"

definition start :: "string list \<Rightarrow> state" where
  "start lines = \<lparr>stdin = lines, calls = [], printed = []\<rparr>"

definition no_flags :: args where
  "no_flags = \<lparr>arg_all = False, arg_img = False, arg_zip = False, arg_notes = None,
               arg_yes = False, arg_upload = None\<rparr>"

section \<open>Properties\<close>

subsection \<open>What \<^verbatim>\<open>add_sha_files\<close> returns\<close>

lemma add_sha_loop_eq:
  "add_sha_loop result sel zs shas = result @ sha_of_selected sel zs shas"
  by (induction zs arbitrary: result)
     (simp_all add: sha_of_selected_def get_matching_sha_def)

lemma add_sha_files_eq:
  "add_sha_files sel zs shas = sel @ sha_of_selected sel zs shas"
  by (simp add: add_sha_files_def add_sha_loop_eq)

lemma sha_of_selected_subset: "set (sha_of_selected sel zs shas) \<subseteq> set shas"
  by (auto simp: sha_of_selected_def)

lemma sha_of_selected_drop:
  "i < length zs \<Longrightarrow> sha_of_selected sel (drop i zs) shas =
     (if zs ! i \<in> set sel \<and> zs ! i @ ''.sha256sum'' \<in> set shas then [zs ! i @ ''.sha256sum''] else [])
     @ sha_of_selected sel (drop (Suc i) zs) shas"
  by (simp add: sha_of_selected_def Cons_nth_drop_Suc [symmetric])

text \<open>
  The loop on the heap ends when the object it appends to is none of the three it
  reads, and it changes that object only.
\<close>

lemma add_sha_loop_heap_eq:
  assumes "res < length h" "res \<noteq> ftr" "res \<noteq> zr" "res \<noteq> sr"
  shows "add_sha_loop_heap h res ftr zr sr i =
           Some (h[res := h ! res @ sha_of_selected (h ! ftr) (drop i (h ! zr)) (h ! sr)])"
  using assms
proof (induction "length (h ! zr) - i" arbitrary: h i)
  case 0
  then show ?case
    by (subst add_sha_loop_heap.simps) (simp add: sha_of_selected_def)
next
  case (Suc k)
  then have i: "i < length (h ! zr)" by simp
  let ?z = "(h ! zr) ! i"
  show ?case
  proof (cases "?z \<in> set (h ! ftr) \<and> ?z @ ''.sha256sum'' \<in> set (h ! sr)")
    case True
    let ?h' = "heap_append h res (?z @ ''.sha256sum'')"
    have same: "?h' ! ftr = h ! ftr" "?h' ! zr = h ! zr" "?h' ! sr = h ! sr"
      using Suc.prems by (simp_all add: heap_append_def)
    have len: "res < length ?h'" using Suc.prems by (simp add: heap_append_def)
    have k: "k = length (?h' ! zr) - (i + 1)" using Suc.hyps(2) same by simp
    have "add_sha_loop_heap ?h' res ftr zr sr (i + 1) =
            Some (?h'[res := ?h' ! res @ sha_of_selected (?h' ! ftr) (drop (i + 1) (?h' ! zr)) (?h' ! sr)])"
      using Suc.hyps(1) [OF k len Suc.prems(2,3,4)] .
    then show ?thesis
      using True i Suc.prems same
      by (subst add_sha_loop_heap.simps)
         (simp add: get_matching_sha_def sha_of_selected_drop heap_append_def Let_def)
  next
    case False
    have k: "k = length (h ! zr) - (i + 1)" using Suc.hyps(2) by simp
    have "add_sha_loop_heap h res ftr zr sr (i + 1) =
            Some (h[res := h ! res @ sha_of_selected (h ! ftr) (drop (i + 1) (h ! zr)) (h ! sr)])"
      using Suc.hyps(1) [OF k Suc.prems] .
    then show ?thesis
      using False i
      by (subst add_sha_loop_heap.simps)
         (auto simp: get_matching_sha_def sha_of_selected_drop Let_def)
  qed
qed

text \<open>
  Claim C10. Whatever list objects the three arguments of \<^verbatim>\<open>add_sha_files\<close> are,
  also when two of them are one object, the call returns a new object: no object that
  existed before is changed, so the input selection is not mutated. The list returned
  starts with the input selection as it was, in its order, and goes on with checksum
  paths only, each of them found by the scan: those of the selected archives.
\<close>

theorem add_sha_files_keeps_selection:
  assumes "files_to_release < length h" "zip_files < length h" "sha_files < length h"
  shows "\<exists>h'. add_sha_files_heap h files_to_release zip_files sha_files = Some (length h, h')
           \<and> length h' = length h + 1
           \<and> (\<forall>r < length h. h' ! r = h ! r)
           \<and> h' ! length h = add_sha_files (h ! files_to_release) (h ! zip_files) (h ! sha_files)
           \<and> take (length (h ! files_to_release)) (h' ! length h) = h ! files_to_release
           \<and> drop (length (h ! files_to_release)) (h' ! length h)
               = sha_of_selected (h ! files_to_release) (h ! zip_files) (h ! sha_files)
           \<and> set (drop (length (h ! files_to_release)) (h' ! length h)) \<subseteq> set (h ! sha_files)"
proof -
  let ?h1 = "h @ [h ! files_to_release]"
  have "add_sha_loop_heap ?h1 (length h) files_to_release zip_files sha_files 0 =
          Some (?h1[length h := ?h1 ! length h
                      @ sha_of_selected (?h1 ! files_to_release) (drop 0 (?h1 ! zip_files)) (?h1 ! sha_files)])"
    using assms by (intro add_sha_loop_heap_eq) simp_all
  then show ?thesis
    using assms
    by (simp add: add_sha_files_heap_def heap_copy_def nth_append add_sha_files_eq
                  sha_of_selected_subset)
qed

text \<open>
  The selection is an alias of the archive list here, as after option 3 of the menu.
\<close>

theorem add_sha_files_keeps_selection_witness:
  "\<exists>h'. add_sha_files_heap [[''a.zip'', ''b.zip''], [''a.zip.sha256sum'']] 0 0 1 = Some (2, h')
        \<and> h' ! 0 = [''a.zip'', ''b.zip'']
        \<and> h' ! 2 = [''a.zip'', ''b.zip'', ''a.zip.sha256sum'']"
  using add_sha_files_keeps_selection [of 0 "[[''a.zip'', ''b.zip''], [''a.zip.sha256sum'']]" 0 1]
  by (auto simp: add_sha_files_def get_matching_sha_def numeral_2_eq_2)

subsection \<open>Where the checksum files stand in the plan\<close>







subsection \<open>Steps of a run\<close>

text \<open>
  The equation of \<^verbatim>\<open>upload_retry\<close> is applied by hand, one step at a time. Updates of
  the state are kept in one order.
\<close>

declare upload_retry.simps [simp del]

lemma state_order [simp]:
  "stdin_update f (calls_update g st) = calls_update g (stdin_update f st)"
  "stdin_update f (printed_update k st) = printed_update k (stdin_update f st)"
  "calls_update g (printed_update k st) = printed_update k (calls_update g st)"
  by simp_all

lemma say_run: "say m st = (Inr (), st\<lparr>printed := printed st @ [m]\<rparr>)"
  by (simp add: say_def)


lemma run_command_run:
  "run_command e cmd st =
     (Inr (strip (stdout (client e (length (calls st)) cmd)), returncode (client e (length (calls st)) cmd)),
      st\<lparr>calls := calls st @ [cmd]\<rparr>)"
  by (simp add: run_command_def bnd_def invoke_def ret_def)









lemma flag_args_run: "flag_args flag cmd = ret v \<Longrightarrow> flag_args flag cmd st = (Inr v, st)"
  by (simp add: ret_def)




text \<open>
  The loop of the upload to an existing release adds the size of every file that the
  client accepts.
\<close>

lemma upload_each_all_succeed:
  assumes "0 < ts"
      and "\<forall>i<length files. returncode (client e (length (calls st) + i) (upload_cmd tag (files ! i))) = 0"
  shows "fst (upload_each e tag ts idx tu files st) = Inr (True, tu + sum_list (map (size_of e) files))
         \<and> calls (snd (upload_each e tag ts idx tu files st)) = calls st @ map (upload_cmd tag) files"
  using assms(2)
proof (induction files arbitrary: st idx tu)
  case Nil
  then show ?case by (simp add: ret_def)
next
  case (Cons p ps)
  from Cons.prems have first: "returncode (client e (length (calls st)) (upload_cmd tag p)) = 0"
    by force
  let ?st1 = "st\<lparr>calls := calls st @ [upload_cmd tag p],
                  printed := printed st @ [File_uploaded (idx + 1) (basename p),
                                           Overall (tu + size_of e p) ts]\<rparr>"
  have "\<forall>i<length ps. returncode (client e (length (calls ?st1) + i) (upload_cmd tag (ps ! i))) = 0"
  proof (intro allI impI)
    fix i assume "i < length ps"
    with Cons.prems have "returncode (client e (length (calls st) + Suc i) (upload_cmd tag ((p # ps) ! Suc i))) = 0"
      by (metis Suc_less_eq length_Cons)
    then show "returncode (client e (length (calls ?st1) + i) (upload_cmd tag (ps ! i))) = 0"
      by simp
  qed
  from Cons.IH [OF this, of "idx + 1" "tu + size_of e p"] first assms(1) show ?case
    by (simp add: bnd_def run_command_run say_run ret_def upload_cmd_def add.assoc)
qed



subsection \<open>Retries\<close>




subsection \<open>The bytes counted as uploaded\<close>


subsection \<open>The exit code after a declined confirmation\<close>

text \<open>
  Claim C5 at the run with \<^verbatim>\<open>--upload rom-1.2\<close> whose user answers \<^verbatim>\<open>n\<close> to the
  confirmation: \<^verbatim>\<open>upload_to_existing_release\<close> reports the cancellation and
  returns \<^verbatim>\<open>False\<close>, as it does for a failure, and \<^verbatim>\<open>main\<close> returns 1. When
  a release is to be created, the same answer ends the run with 0.
\<close>

theorem declined_upload_exits_1:
  "main (world client_ok) (no_flags\<lparr>arg_upload := Some ''rom-1.2''\<rparr>) (start [''n''])
     = Some (Inr 1,
        \<lparr>stdin = [],
           calls = [[''gh'', ''auth'', ''status''], [''gh'', ''repo'', ''view''],
                    [''gh'', ''release'', ''view'', ''rom-1.2''], [''gh'', ''release'', ''view'', ''rom-1.2'']],
           printed = [Final_command [''gh'', ''release'', ''upload'', ''rom-1.2'', ''rom-1.2-2025.zip'',
                                     ''boot.img'', ''rom-1.2-2025.zip.sha256sum''],
                      Cancelled, Upload_failed]\<rparr>)
   \<and> exit_code_of (Inr 1) = 1
   \<and> main (world (client_no_upload False)) (no_flags\<lparr>arg_all := True\<rparr>) (start [''n''])
     = Some (Inr 0,
        \<lparr>stdin = [],
           calls = [[''gh'', ''auth'', ''status''], [''gh'', ''repo'', ''view''],
                    [''gh'', ''release'', ''view'', ''rom-1.2-2025'']],
           printed = [Final_command [''gh'', ''release'', ''create'', ''rom-1.2-2025'', ''rom-1.2-2025.zip'',
                        ''boot.img'', ''rom-1.2-2025.zip.sha256sum'', ''--notes'',
                        ''- Auto-generated release'', ''--title'', ''rom-1.2-2025.zip''],
                      Cancelled]\<rparr>)"
  by code_simp

subsection \<open>The fallback to the combined invocation\<close>




subsection \<open>A tag that is not taken\<close>

text \<open>\<^verbatim>\<open>str\<close> of a number is read back as that number, so it is injective.\<close>

declare str_nat.simps [simp del]

lemma digit_val_char: "d < 10 \<Longrightarrow> digit_val (digit_char d) = d"
  by (simp add: digit_val_def digit_char_def)

lemma str_nat_value: "foldl (\<lambda>a c. 10 * a + digit_val c) 0 (str_nat n) = n"
proof (induction n rule: str_nat.induct)
  case (1 n)
  show ?case
  proof (cases "n < 10")
    case True
    then show ?thesis by (subst str_nat.simps) (simp add: digit_val_char)
  next
    case False
    with 1 show ?thesis by (subst str_nat.simps) (simp add: digit_val_char)
  qed
qed

lemma str_nat_inj: "str_nat m = str_nat n \<Longrightarrow> m = n"
  by (metis str_nat_value)

lemma candidate_inj: "inj (candidate tag)"
  by (auto simp: inj_def candidate_def dest: str_nat_inj)

lemma free_candidate:
  assumes "finite existing"
  shows "\<exists>k\<ge>2. candidate tag k \<notin> existing"
proof (rule ccontr)
  assume "\<not> (\<exists>k\<ge>2. candidate tag k \<notin> existing)"
  then have "candidate tag ` {2..} \<subseteq> existing" by auto
  then have "finite (candidate tag ` {2..})" using assms by (rule finite_subset)
  then have "finite {2::nat..}"
    by (rule finite_imageD) (rule inj_on_subset [OF candidate_inj], simp)
  then show False by (simp add: infinite_Ici)
qed

lemma check_tag_exists_run:
  "publishes e existing \<Longrightarrow>
   check_tag_exists e tag st = (Inr (tag \<in> existing), st\<lparr>calls := calls st @ [[''gh'', ''release'', ''view'', tag]]\<rparr>)"
  by (simp add: check_tag_exists_def bnd_def run_command_def invoke_def ret_def publishes_def)

lemma version_loop_unfold:
  assumes "publishes e existing"
  shows "version_loop e tag v st =
           (if candidate tag v \<in> existing
            then version_loop e tag (v + 1)
                   (st\<lparr>calls := calls st @ [[''gh'', ''release'', ''view'', candidate tag v]]\<rparr>)
            else Some (v, st\<lparr>calls := calls st @ [[''gh'', ''release'', ''view'', candidate tag v]]\<rparr>))"
  by (subst version_loop.simps)
     (simp add: check_tag_exists_run [OF assms] candidate_def)

lemma get_unique_tag_unfold:
  assumes "publishes e existing"
  shows "get_unique_tag e tag st =
           (if tag \<in> existing
            then (case version_loop e tag 2
                         (st\<lparr>calls := calls st @ [[''gh'', ''release'', ''view'', tag]],
                            printed := printed st @ [Tag_exists tag]\<rparr>) of
                    None \<Rightarrow> None
                  | Some (version, st2) \<Rightarrow>
                      Some (Inr (candidate tag version),
                            st2\<lparr>printed := printed st2 @ [Using_new_tag (candidate tag version)]\<rparr>))
            else Some (Inr tag, st\<lparr>calls := calls st @ [[''gh'', ''release'', ''view'', tag]]\<rparr>))"
  by (simp add: get_unique_tag_def check_tag_exists_run [OF assms] candidate_def say_def Let_def
           split: option.splits)

lemma version_loop_least:
  assumes "publishes e existing" "v \<le> k" "candidate tag k \<notin> existing"
  shows "\<exists>st'. version_loop e tag v st =
            Some (LEAST n. v \<le> n \<and> candidate tag n \<notin> existing, st')"
  using assms(2,3)
proof (induction "k - v" arbitrary: v st)
  case 0
  then have "v = k" by simp
  with 0 have "(LEAST n. v \<le> n \<and> candidate tag n \<notin> existing) = v"
    by (intro Least_equality) auto
  with 0 \<open>v = k\<close> show ?case
    by (subst version_loop_unfold [OF assms(1)]) simp
next
  case (Suc d)
  show ?case
  proof (cases "candidate tag v \<in> existing")
    case False
    then have "(LEAST n. v \<le> n \<and> candidate tag n \<notin> existing) = v"
      by (intro Least_equality) auto
    with False show ?thesis
      by (subst version_loop_unfold [OF assms(1)]) simp
  next
    case True
    have same: "(\<lambda>n. v \<le> n \<and> candidate tag n \<notin> existing)
                  = (\<lambda>n. v + 1 \<le> n \<and> candidate tag n \<notin> existing)"
      using True by (auto simp: fun_eq_iff Suc_le_eq le_less)
    from True Suc.prems have "v \<noteq> k" by auto
    with Suc have "d = k - (v + 1)" "v + 1 \<le> k" by simp_all
    from Suc.hyps(1) [OF this Suc.prems(2)]
    have "\<exists>st'. version_loop e tag (v + 1)
                        (st\<lparr>calls := calls st @ [[''gh'', ''release'', ''view'', candidate tag v]]\<rparr>) =
            Some (LEAST n. v + 1 \<le> n \<and> candidate tag n \<notin> existing, st')" .
    with True show ?thesis
      by (subst version_loop_unfold [OF assms(1)]) (simp only: same if_True)
  qed
qed

lemma publishes_example: "publishes (world (client_published tags)) (set tags)"
  by (auto simp: publishes_def world_def client_published_def answer_def)

lemma candidate_examples:
  "candidate ''T'' 2 = ''T-v2''" "candidate ''T'' 10 = ''T-v10''"
  by code_simp+

lemma unique_tag_example:
  "get_unique_tag (world (client_published [''T''])) ''T'' (start [])
     = Some (Inr ''T-v2'',
         \<lparr>stdin = [],
            calls = [[''gh'', ''release'', ''view'', ''T''], [''gh'', ''release'', ''view'', ''T-v2'']],
            printed = [Tag_exists ''T'', Using_new_tag ''T-v2'']\<rparr>)"
  by (simp add: get_unique_tag_unfold [OF publishes_example] version_loop_unfold [OF publishes_example]
                candidate_examples start_def)

text \<open>
  Claim C3, as the code has it. Let the published releases be exactly the tags of a
  finite set. From every state, hence on every repeated run against that remote state,
  \<^verbatim>\<open>get_unique_tag\<close> returns the tag itself when it is not published, and otherwise
  the candidate \<^verbatim>\<open>T-v{n}\<close> with the least number \<open>n\<close> from 2 on that is not
  published. The tag returned is not published, and asked for a unique tag for it the
  function returns it as it is.
\<close>

theorem get_unique_tag_least_version:
  assumes "publishes e existing" "finite existing"
  shows "\<exists>t. t = (if tag \<in> existing
                  then candidate tag (LEAST n. 2 \<le> n \<and> candidate tag n \<notin> existing)
                  else tag)
            \<and> t \<notin> existing
            \<and> (\<forall>st. \<exists>st'. get_unique_tag e tag st = Some (Inr t, st'))
            \<and> (\<forall>st. \<exists>st'. get_unique_tag e t st = Some (Inr t, st'))"
proof -
  let ?m = "LEAST n. 2 \<le> n \<and> candidate tag n \<notin> existing"
  let ?t = "if tag \<in> existing then candidate tag ?m else tag"
  obtain k where k: "2 \<le> k" "candidate tag k \<notin> existing"
    using free_candidate [OF assms(2)] by blast
  then have m: "2 \<le> ?m \<and> candidate tag ?m \<notin> existing"
    by (intro LeastI [of "\<lambda>n. 2 \<le> n \<and> candidate tag n \<notin> existing" k]) simp
  have free: "?t \<notin> existing" using m by simp
  have run: "\<exists>st'. get_unique_tag e tag st = Some (Inr ?t, st')" for st
  proof (cases "tag \<in> existing")
    case False
    then show ?thesis
      by (simp add: get_unique_tag_unfold [OF assms(1)])
  next
    case True
    obtain st' where "version_loop e tag 2
        (st\<lparr>calls := calls st @ [[''gh'', ''release'', ''view'', tag]],
           printed := printed st @ [Tag_exists tag]\<rparr>)
          = Some (?m, st')"
      using version_loop_least [OF assms(1) k] by blast
    with True show ?thesis
      by (simp add: get_unique_tag_unfold [OF assms(1)])
  qed
  have again: "\<exists>st'. get_unique_tag e ?t st = Some (Inr ?t, st')" for st
    using free by (simp add: get_unique_tag_unfold [OF assms(1)])
  from free run again show ?thesis by blast
qed

theorem get_unique_tag_least_version_witness:
  "candidate ''T'' (LEAST n. 2 \<le> n \<and> candidate ''T'' n \<notin> set [''T'']) = ''T-v2''
   \<and> (\<exists>st'. get_unique_tag (world (client_published [''T''])) ''T-v2'' (start []) = Some (Inr ''T-v2'', st'))"
proof -
  from get_unique_tag_least_version [OF publishes_example, of "[''T'']" "''T''"]
  obtain t where t: "t = candidate ''T'' (LEAST n. 2 \<le> n \<and> candidate ''T'' n \<notin> set [''T''])"
    and run: "\<forall>st. \<exists>st'. get_unique_tag (world (client_published [''T''])) ''T'' st = Some (Inr t, st')"
    and again: "\<forall>st. \<exists>st'. get_unique_tag (world (client_published [''T''])) t st = Some (Inr t, st')"
    by auto
  from run unique_tag_example have "t = ''T-v2''"
    by (metis Pair_inject option.inject sum.inject(2))
  with t again show ?thesis by metis
qed

text \<open>
  Claim C3, as the specification words it, fails: when only \<^verbatim>\<open>T\<close> is published the
  function returns \<^verbatim>\<open>T-v2\<close>, while \<^verbatim>\<open>T-v10\<close> is a candidate that is not
  published and comes before \<^verbatim>\<open>T-v2\<close> in the lexicographic order.
\<close>

theorem tag_not_lexicographically_first:
  "get_unique_tag (world (client_published [''T''])) ''T'' (start [])
     = Some (Inr ''T-v2'',
         \<lparr>stdin = [],
            calls = [[''gh'', ''release'', ''view'', ''T''], [''gh'', ''release'', ''view'', ''T-v2'']],
            printed = [Tag_exists ''T'', Using_new_tag ''T-v2'']\<rparr>)
   \<and> \<not> lex_first_free (set [''T'']) ''T'' ''T-v2''"
proof
  show "get_unique_tag (world (client_published [''T''])) ''T'' (start [])
     = Some (Inr ''T-v2'',
         \<lparr>stdin = [],
            calls = [[''gh'', ''release'', ''view'', ''T''], [''gh'', ''release'', ''view'', ''T-v2'']],
            printed = [Tag_exists ''T'', Using_new_tag ''T-v2'']\<rparr>)"
    by (rule unique_tag_example)
  show "\<not> lex_first_free (set [''T'']) ''T'' ''T-v2''"
  proof
    assume "lex_first_free (set [''T'']) ''T'' ''T-v2''"
    then have "\<forall>n\<ge>2. candidate ''T'' n \<notin> set [''T''] \<longrightarrow> ''T-v2'' \<le> candidate ''T'' n"
      by (simp add: lex_first_free_def)
    then have "(2::nat) \<le> 10 \<longrightarrow> candidate ''T'' 10 \<notin> set [''T''] \<longrightarrow> ''T-v2'' \<le> candidate ''T'' 10"
      by (rule spec)
    then have "''T-v2'' \<le> ''T-v10''" by (simp add: candidate_examples)
    moreover have "\<not> ''T-v2'' \<le> ''T-v10''" by code_simp
    ultimately show False by contradiction
  qed
qed

subsection \<open>The manual selector\<close>






















subsection \<open>Runs that end before any transfer\<close>

text \<open>The two checks of \<^verbatim>\<open>main\<close> invoke the client once each.\<close>

lemma check_github_auth_calls:
  "check_github_auth e st = (r, st') \<Longrightarrow> calls st' = calls st @ [[''gh'', ''auth'', ''status'']]"
  by (auto simp: check_github_auth_def bnd_def run_command_run input_line_def ret_def raise_def
           split: if_splits list.splits prod.splits sum.splits)

lemma check_repository_access_calls:
  "check_repository_access e st = (r, st') \<Longrightarrow> calls st' = calls st @ [[''gh'', ''repo'', ''view'']]"
  by (auto simp: check_repository_access_def bnd_def run_command_run ret_def raise_def
           split: if_splits)

lemma main_cases:
  "main e a st =
     (case check_github_auth e st of
        (Inl x, st1) \<Rightarrow> Some (Inl x, st1)
      | (Inr authenticated, st1) \<Rightarrow>
          if \<not> authenticated then Some (Inr 1, st1)
          else (case check_repository_access e st1 of
                  (Inl x, st2) \<Rightarrow> Some (Inl x, st2)
                | (Inr accessible, st2) \<Rightarrow>
                    if \<not> accessible then Some (Inr 1, st2) else main_checked e a st2))"
  by (simp add: main_def pbnd_def lift_def ret_def split: prod.splits sum.splits)

lemma main_exit_1:
  assumes "\<And>st2. \<exists>r st'. main_checked e a st2 = Some (r, st') \<and> exit_code_of r = 1 \<and> calls st' = calls st2"
  shows "\<exists>r st'. main e a st = Some (r, st') \<and> exit_code_of r = 1
           \<and> set (calls st') \<subseteq> set (calls st) \<union> {[''gh'', ''auth'', ''status''], [''gh'', ''repo'', ''view'']}"
proof -
  obtain r1 st1 where c1: "check_github_auth e st = (r1, st1)" by (cases "check_github_auth e st")
  obtain r2 st2 where c2: "check_repository_access e st1 = (r2, st2)"
    by (cases "check_repository_access e st1")
  obtain r st' where m: "main_checked e a st2 = Some (r, st')" "exit_code_of r = 1" "calls st' = calls st2"
    using assms [of st2] by blast
  note k1 = check_github_auth_calls [OF c1]
  note k2 = check_repository_access_calls [OF c2]
  show ?thesis
    using c1 c2 m k1 k2
    by (cases r1; cases r2) (auto simp: main_cases exit_code_of_def)
qed

text \<open>
  Claim C9, as the code has it. When the scan finds no archive and no image, the part of
  \<^verbatim>\<open>main\<close> after the two checks reports that no files were found and invokes the
  client no more. With a flag it returns 1 and reads nothing from the user. With no flag
  the interactive shell first waits for a line of input (\<^verbatim>\<open>Press Enter to
  continue...\<close>): it returns 1 when it gets one and ends with \<^verbatim>\<open>EOFError\<close> when the
  input is at its end. The exit code of the whole run is 1 in every case, and its only
  invocations are those of the two checks.
\<close>

theorem empty_scan_aborts:
  assumes "zip_glob e = []" "img_glob e = []"
  shows "main_checked e a st =
           Some (if any_flag a then (Inr 1, st\<lparr>printed := printed st @ [No_files_found]\<rparr>)
                 else (case stdin st of
                         [] \<Rightarrow> (Inl EOFError, st\<lparr>printed := printed st @ [No_files_found]\<rparr>)
                       | l # ls \<Rightarrow> (Inr 1, st\<lparr>stdin := ls, printed := printed st @ [No_files_found]\<rparr>)))
         \<and> (\<exists>r st'. main e a st = Some (r, st') \<and> exit_code_of r = 1
               \<and> set (calls st') \<subseteq> set (calls st) \<union> {[''gh'', ''auth'', ''status''], [''gh'', ''repo'', ''view'']})"
proof
  show run: "main_checked e a st =
           Some (if any_flag a then (Inr 1, st\<lparr>printed := printed st @ [No_files_found]\<rparr>)
                 else (case stdin st of
                         [] \<Rightarrow> (Inl EOFError, st\<lparr>printed := printed st @ [No_files_found]\<rparr>)
                       | l # ls \<Rightarrow> (Inr 1, st\<lparr>stdin := ls, printed := printed st @ [No_files_found]\<rparr>)))"
    for st
    using assms
    by (simp add: main_checked_def main_flags_def interactive_mode_def lift_def bnd_def say_run
                  input_line_def ret_def split: list.splits)
  have "\<exists>r st'. main_checked e a st2 = Some (r, st') \<and> exit_code_of r = 1 \<and> calls st' = calls st2" for st2
    by (simp add: run exit_code_of_def split: list.splits)
  then show "\<exists>r st'. main e a st = Some (r, st') \<and> exit_code_of r = 1
               \<and> set (calls st') \<subseteq> set (calls st) \<union> {[''gh'', ''auth'', ''status''], [''gh'', ''repo'', ''view'']}"
    by (rule main_exit_1)
qed

theorem empty_scan_aborts_witness:
  "main_checked (empty_world client_ok) (no_flags\<lparr>arg_all := True\<rparr>) (start [''x''])
     = Some (Inr 1, \<lparr>stdin = [''x''], calls = [], printed = [No_files_found]\<rparr>)
   \<and> main_checked (empty_world client_ok) no_flags (start [''x''])
     = Some (Inr 1, \<lparr>stdin = [], calls = [], printed = [No_files_found]\<rparr>)"
  using empty_scan_aborts [of "empty_world client_ok" "no_flags\<lparr>arg_all := True\<rparr>" "start [''x'']"]
        empty_scan_aborts [of "empty_world client_ok" no_flags "start [''x'']"]
  by (simp add: empty_world_def no_flags_def start_def any_flag_def truthy_def)

text \<open>
  Claim C9, as the specification words it, fails in the interactive mode: after the
  report the run prompts once more and takes the line \<^verbatim>\<open>x\<close> from the input, and
  with no input left the prompt ends the run with \<^verbatim>\<open>EOFError\<close>.
\<close>

theorem empty_scan_still_prompts:
  "main (empty_world client_ok) no_flags (start [''x''])
     = Some (Inr 1,
        \<lparr>stdin = [], calls = [[''gh'', ''auth'', ''status''], [''gh'', ''repo'', ''view'']],
           printed = [No_files_found]\<rparr>)
   \<and> main (empty_world client_ok) no_flags (start [])
     = Some (Inl EOFError,
        \<lparr>stdin = [], calls = [[''gh'', ''auth'', ''status''], [''gh'', ''repo'', ''view'']],
           printed = [No_files_found]\<rparr>)"
  by code_simp



end
